theory Spec2Isabelle
  imports Complex_Main
begin

section \<open>Data model of \<open>cloud_fill.cpp\<close>\<close>

text \<open>
  The source works on Armadillo matrices of doubles.  A matrix with one row per pixel and
  one column per band (\<open>cloudy\<close>, \<open>clear\<close>, \<open>sub_cloudy\<close>, \<open>sub_clear\<close>, ...) is a list of
  rows, each row the list of the band values of one pixel; the pixels are in column-major
  order, so the pixel at row \<open>r\<close> and column \<open>c\<close> of an image with \<open>R\<close> rows has index
  \<open>r + c * R\<close>.  Samples are real numbers: every arithmetic operation of the source is
  read in exact real arithmetic.  The cloud mask holds integer codes.  \<open>dims\<close> is the
  vector (rows, columns, bands).  The caller supplies \<open>cloudy\<close> and \<open>clear\<close> with
  \<open>dims(0) * dims(1)\<close> rows of \<open>dims(2)\<close> values and a mask of \<open>dims(0) * dims(1)\<close> codes;
  the source does not check it.  \<open>num_class\<close> is not 0 (the threshold of line 88 divides
  by it).  The \<open>int\<close> variables of the source are unbounded integers here: the image and
  \<open>cloud_nbh\<close> are small enough that no 32-bit computation of the source overflows.

  Armadillo checks the bounds of every sub-view it builds (\<open>tube\<close>, \<open>submat\<close>, \<open>span\<close>),
  the size of the argument of \<open>min\<close> and \<open>max\<close> and the size of a matrix it allocates, and
  raises an exception when a check fails; this is the error value \<open>Logic_Error\<close>, at which
  the fill stops.
\<close>

datatype error = Logic_Error

type_synonym spectrum = "real list"
type_synonym image = "spectrum list"

subsection \<open>Library operations\<close>

definition find_eq :: "int list \<Rightarrow> int \<Rightarrow> nat list" where
  \<comment> \<open>\<open>find(v == code)\<close>: the indices holding the code, ascending\<close>
  "find_eq v code = filter (\<lambda>i. v ! i = code) [0..<length v]"

definition unique :: "int list \<Rightarrow> int list" where
  \<comment> \<open>\<open>unique(v)\<close>: the distinct values, ascending\<close>
  "unique v = sort (remdups v)"

definition vmin :: "'a::linorder list \<Rightarrow> 'a" where
  "vmin xs = fold min (tl xs) (hd xs)"

definition vmax :: "'a::linorder list \<Rightarrow> 'a" where
  "vmax xs = fold max (tl xs) (hd xs)"

definition mean :: "real list \<Rightarrow> real" where
  "mean xs = sum_list xs / real (length xs)"

definition stddev :: "real list \<Rightarrow> real" where
  \<comment> \<open>\<open>stddev(x, 0)\<close>: sample standard deviation, normalised by \<open>N - 1\<close>; 0 below two samples\<close>
  "stddev xs =
     (if length xs < 2 then 0
      else sqrt (sum_list (map (\<lambda>x. (x - mean xs)\<^sup>2) xs) / real (length xs - 1)))"

definition sort_index :: "real list \<Rightarrow> nat list" where
  \<comment> \<open>\<open>sort_index(v)\<close>: the indices of \<open>v\<close> in ascending order of their values.  The library
      leaves the order of equal values open; here equal values keep their index order.\<close>
  "sort_index v = sort_key (\<lambda>i. v ! i) [0..<length v]"

definition band_col :: "image \<Rightarrow> nat \<Rightarrow> real list" where
  \<comment> \<open>one column of a pixel-by-band matrix\<close>
  "band_col m b = map (\<lambda>row. row ! b) m"

definition rows_at :: "image \<Rightarrow> nat list \<Rightarrow> image" where
  \<comment> \<open>\<open>m.rows(idx)\<close>\<close>
  "rows_at m idx = map (\<lambda>i. m ! i) idx"

definition cell_of :: "nat list \<Rightarrow> int \<Rightarrow> int \<Rightarrow> nat \<Rightarrow> nat \<Rightarrow> nat" where
  \<comment> \<open>the pixel of the image that is element \<open>e\<close> (column-major) of a window of \<open>nr\<close> rows
      whose first cell is at row \<open>up_row\<close> and column \<open>left_col\<close>\<close>
  "cell_of dims up_row left_col nr e =
     (nat up_row + e mod nr) + (nat left_col + e div nr) * dims ! 0"

definition tube :: "'a list \<Rightarrow> nat list \<Rightarrow> int \<Rightarrow> int \<Rightarrow> int \<Rightarrow> int \<Rightarrow> error + 'a list" where
  \<comment> \<open>\<open>cube.tube(up_row, left_col, down_row, right_col)\<close> followed by the element-wise copy
      into a pixel-by-band matrix (lines 76-83), and \<open>submat\<close> of the mask (line 85):
      the cells of the window in column-major order\<close>
  "tube img dims up_row left_col down_row right_col =
     (if 0 \<le> up_row \<and> up_row \<le> down_row \<and> down_row < int (dims ! 0) \<and>
         0 \<le> left_col \<and> left_col \<le> right_col \<and> right_col < int (dims ! 1)
      then
        (let nr = nat (down_row - up_row + 1); nc = nat (right_col - left_col + 1)
         in Inr (map (\<lambda>e. img ! cell_of dims up_row left_col nr e) [0..<nr * nc]))
      else Inl Logic_Error)"

definition span_from_1 :: "'a list \<Rightarrow> error + 'a list" where
  \<comment> \<open>\<open>v(span(1, v.n_elem - 1))\<close> with \<open>n_elem\<close> unsigned: below two elements the span is
      refused by the bounds check\<close>
  "span_from_1 v = (if length v < 2 then Inl Logic_Error else Inr (tl v))"

subsection \<open>The region: lines 47-107\<close>

record region =
  up_row :: int
  left_col :: int
  down_row :: int
  right_col :: int
  num_sub_cols :: int
  num_sub_rows :: int
  x_center :: real
  y_center :: real
  sub_cloudy :: image
  sub_clear :: image
  similar_th_band :: "real list"
  sub_clear_row_i :: "nat list"
  sub_clear_col_i :: "nat list"
  sub_clear_clear :: image
  sub_cloudy_clear :: image
  mean_diff :: "real list"
  sub_cloud_vec_i :: "nat list"
  sub_cloud_row_i :: "nat list"
  sub_cloud_col_i :: "nat list"

definition mean_diff_of :: "image \<Rightarrow> image \<Rightarrow> nat \<Rightarrow> real list" where
  \<comment> \<open>\<open>mean(sub_cloudy_clear - sub_clear_clear, 0)\<close>.  Over zero rows the mean has no row;
      it is never read then, because \<open>span_from_1\<close> fails first for every pixel.\<close>
  "mean_diff_of cloudy_clear clear_clear nb =
     (if cloudy_clear = [] then []
      else map (\<lambda>b. mean (map2 (\<lambda>x y. x ! b - y ! b) cloudy_clear clear_clear)) [0..<nb])"

definition window_bounds :: "int list \<Rightarrow> nat list \<Rightarrow> int \<Rightarrow> int \<Rightarrow> int \<times> int \<times> int \<times> int" where
  \<comment> \<open>lines 51-66: \<open>(up_row, left_col, down_row, right_col)\<close> of the region's window\<close>
  "window_bounds cloud_mask dims cloud_nbh cloud_code =
     (let cloud_vec_i = find_eq cloud_mask cloud_code;
          cloud_col_i = map (\<lambda>i. i div dims ! 0) cloud_vec_i;
          cloud_row_i = map (\<lambda>i. i - (i div dims ! 0) * dims ! 0) cloud_vec_i;
          left_col0 = int (vmin cloud_col_i) - cloud_nbh;
          left_col = (if left_col0 < 0 then 0 else left_col0);
          right_col0 = int (vmax cloud_col_i) + cloud_nbh;
          right_col = (if right_col0 > int (dims ! 1) - 1 then int (dims ! 1) - 1 else right_col0);
          up_row0 = int (vmin cloud_row_i) - cloud_nbh;
          up_row = (if up_row0 < 0 then 0 else up_row0);
          down_row0 = int (vmax cloud_row_i) + cloud_nbh;
          down_row = (if down_row0 > int (dims ! 0) - 1 then int (dims ! 0) - 1 else down_row0)
      in (up_row, left_col, down_row, right_col))"

definition extract_region ::
  "image \<Rightarrow> image \<Rightarrow> int list \<Rightarrow> nat list \<Rightarrow> int \<Rightarrow> int \<Rightarrow> int \<Rightarrow> error + region" where
  \<comment> \<open>\<open>min\<close> and \<open>max\<close> of line 56 onwards refuse a vector without elements\<close>
  "extract_region cloudy clear cloud_mask dims num_class cloud_nbh cloud_code =
     (if find_eq cloud_mask cloud_code = [] then Inl Logic_Error
      else
       (case window_bounds cloud_mask dims cloud_nbh cloud_code of
          (up, left, down, right) \<Rightarrow>
        (case tube cloudy dims up left down right of
           Inl e \<Rightarrow> Inl e
         | Inr cloudy_w \<Rightarrow>
        (case tube clear dims up left down right of
           Inl e \<Rightarrow> Inl e
         | Inr clear_w \<Rightarrow>
        (case tube cloud_mask dims up left down right of
           Inl e \<Rightarrow> Inl e
         | Inr sub_cloud_mask \<Rightarrow>
        (let num_sub_cols = (right - left) + 1;
             num_sub_rows = (down - up) + 1;
             n_rows = nat num_sub_rows;
             sub_clear_vec_i = find_eq sub_cloud_mask 0;
             sub_cloud_vec_i = find_eq sub_cloud_mask cloud_code;
             sub_clear_clear = rows_at clear_w sub_clear_vec_i;
             sub_cloudy_clear = rows_at cloudy_w sub_clear_vec_i
         in Inr \<lparr> up_row = up, left_col = left, down_row = down, right_col = right,
                  num_sub_cols = num_sub_cols, num_sub_rows = num_sub_rows,
                  x_center = real_of_int num_sub_cols / 2,
                  y_center = real_of_int num_sub_rows / 2,
                  sub_cloudy = cloudy_w, sub_clear = clear_w,
                  similar_th_band =
                    map (\<lambda>b. stddev (band_col clear_w b) * 2 / real_of_int num_class)
                      [0..<dims ! 2],
                  sub_clear_row_i = map (\<lambda>i. i - (i div n_rows) * n_rows) sub_clear_vec_i,
                  sub_clear_col_i = map (\<lambda>i. i div n_rows) sub_clear_vec_i,
                  sub_clear_clear = sub_clear_clear,
                  sub_cloudy_clear = sub_cloudy_clear,
                  mean_diff = mean_diff_of sub_cloudy_clear sub_clear_clear (dims ! 2),
                  sub_cloud_vec_i = sub_cloud_vec_i,
                  sub_cloud_row_i = map (\<lambda>i. i - (i div n_rows) * n_rows) sub_cloud_vec_i,
                  sub_cloud_col_i = map (\<lambda>i. i div n_rows) sub_cloud_vec_i \<rparr>))))))"

subsection \<open>The similar-pixel search: lines 111-144\<close>

definition r2_of :: "nat \<Rightarrow> region \<Rightarrow> real" where
  \<comment> \<open>line 115, with \<open>ri\<close> the row and \<open>ci\<close> the column of the target in the window\<close>
  "r2_of ic r =
     (let ri = sub_cloud_row_i r ! ic; ci = sub_cloud_col_i r ! ic
      in sqrt ((x_center r - real ri)\<^sup>2 + (y_center r - real ci)\<^sup>2))"

definition clear_dists_of :: "nat \<Rightarrow> region \<Rightarrow> real list" where
  \<comment> \<open>lines 118-119\<close>
  "clear_dists_of ic r =
     (let ri = sub_cloud_row_i r ! ic; ci = sub_cloud_col_i r ! ic
      in map2 (\<lambda>row col. sqrt ((real row - real ri)\<^sup>2 + (real col - real ci)\<^sup>2))
           (sub_clear_row_i r) (sub_clear_col_i r))"

definition indicate_similar :: "region \<Rightarrow> nat list \<Rightarrow> nat \<Rightarrow> nat \<Rightarrow> nat" where
  \<comment> \<open>line 133: the number of bands that pass the comparison\<close>
  "indicate_similar r dims ic cand =
     length (filter (\<lambda>b. sub_clear_clear r ! cand ! b - sub_clear r ! ic ! b
                           \<le> similar_th_band r ! b) [0..<dims ! 2])"

type_synonym similar = "image \<times> image \<times> real list \<times> real list"
  \<comment> \<open>the filled rows of \<open>cloudy_similar\<close>, \<open>clear_similar\<close>, \<open>rmse_similar\<close>, \<open>dis_similar\<close>;
      \<open>num_similar\<close> is their common length\<close>

definition num_similar :: "similar \<Rightarrow> nat" where
  "num_similar s = (case s of (cs, ls, rs, ds) \<Rightarrow> length rs)"

function similar_loop ::
  "region \<Rightarrow> nat list \<Rightarrow> int \<Rightarrow> nat \<Rightarrow> real list \<Rightarrow> nat list \<Rightarrow> nat \<Rightarrow> similar \<Rightarrow> similar" where
  "similar_loop r dims min_pixel ic clear_dists order_clear iclear s =
     (if int (num_similar s) \<le> min_pixel - 1 \<and> int iclear \<le> int (length order_clear) - 1
      then
        (if indicate_similar r dims ic (order_clear ! iclear) = dims ! 2
         then similar_loop r dims min_pixel ic clear_dists order_clear (Suc iclear)
                (case s of (cs, ls, rs, ds) \<Rightarrow>
                   (cs @ [sub_cloudy_clear r ! (order_clear ! iclear)],
                    ls @ [sub_clear_clear r ! (order_clear ! iclear)],
                    rs @ [sqrt (sum_list (map (\<lambda>b. (sub_clear_clear r ! (order_clear ! iclear) ! b
                                                      - sub_clear r ! ic ! b)\<^sup>2) [0..<dims ! 2])
                                / real (dims ! 2))],
                    ds @ [clear_dists ! (order_clear ! iclear)]))
         else similar_loop r dims min_pixel ic clear_dists order_clear (Suc iclear) s)
      else s)"
  by pat_completeness auto
termination
  by (relation "measure (\<lambda>(r, dims, min_pixel, ic, clear_dists, order_clear, iclear, s).
                  length order_clear - iclear)") auto

declare similar_loop.simps [simp del]

definition find_similar :: "nat list \<Rightarrow> int \<Rightarrow> nat \<Rightarrow> region \<Rightarrow> error + similar" where
  \<comment> \<open>lines 118-144 for the \<open>ic\<close>-th pixel of the region.  The four buffers of lines 128-131
      have \<open>min_pixel\<close> rows: a negative \<open>min_pixel\<close> is an unsigned size that the library
      refuses.\<close>
  "find_similar dims min_pixel ic r =
     (let clear_dists = clear_dists_of ic r
      in case span_from_1 (sort_index clear_dists) of
           Inl e \<Rightarrow> Inl e
         | Inr order_clear \<Rightarrow>
             (if min_pixel < 0 then Inl Logic_Error
              else Inr (similar_loop r dims min_pixel ic clear_dists order_clear 1
                          ([], [], [], []))))"

subsection \<open>The weighted predictor: lines 146-185\<close>

definition normalise :: "real list \<Rightarrow> real list" where
  \<comment> \<open>lines 156 and 157\<close>
  "normalise xs = map (\<lambda>x. (x - vmin xs) / (vmax xs - vmin xs + 0.000001) + 1.0) xs"

definition C_D :: "real list \<Rightarrow> real list \<Rightarrow> real list" where
  "C_D rmse_similar dis_similar =
     map2 (\<lambda>a b. a * b + 0.0000001) (normalise rmse_similar) (normalise dis_similar)"

definition weight :: "real list \<Rightarrow> real list \<Rightarrow> real list" where
  "weight rmse_similar dis_similar =
     (let inv = map (\<lambda>c. 1.0 / c) (C_D rmse_similar dis_similar)
      in map (\<lambda>v. v / sum_list inv) inv)"

definition W_T1 :: "real \<Rightarrow> real list \<Rightarrow> real" where
  "W_T1 r2 dis_similar = r2 / (r2 + mean dis_similar)"

definition W_T2 :: "real \<Rightarrow> real list \<Rightarrow> real" where
  "W_T2 r2 dis_similar = mean dis_similar / (r2 + mean dis_similar)"

definition predict_1 :: "image \<Rightarrow> real list \<Rightarrow> nat \<Rightarrow> real" where
  "predict_1 cloudy_similar w b = sum_list (map2 (\<lambda>row wi. row ! b * wi) cloudy_similar w)"

definition predict_2 :: "image \<Rightarrow> image \<Rightarrow> real list \<Rightarrow> spectrum \<Rightarrow> nat \<Rightarrow> real" where
  "predict_2 cloudy_similar clear_similar w target b =
     target ! b
       + sum_list (map2 (\<lambda>(crow, lrow) wi. (crow ! b - lrow ! b) * wi)
                     (zip cloudy_similar clear_similar) w)"

definition fill_pixel ::
  "region \<Rightarrow> nat list \<Rightarrow> int \<Rightarrow> int \<Rightarrow> int \<Rightarrow> image \<Rightarrow> nat \<Rightarrow> error + image" where
  \<comment> \<open>one iteration of the loop of line 109, on the matrix \<open>sub_cloudy\<close>\<close>
  "fill_pixel r dims min_pixel DN_min DN_max sub_cloudy_m ic =
     (case find_similar dims min_pixel ic r of
        Inl e \<Rightarrow> Inl e
      | Inr (cloudy_similar, clear_similar, rmse_similar, dis_similar) \<Rightarrow>
          (if length rmse_similar > 1
           then
             (let w = weight rmse_similar dis_similar;
                  r2 = r2_of ic r
              in Inr (sub_cloudy_m[ic :=
                   map (\<lambda>iband.
                     (let p1 = predict_1 cloudy_similar w iband;
                          p2 = predict_2 cloudy_similar clear_similar w (sub_clear r ! ic) iband
                      in if p2 > real_of_int DN_min \<and> p2 < real_of_int DN_max
                         then W_T1 r2 dis_similar * p1 + W_T2 r2 dis_similar * p2
                         else p1))
                     [0..<dims ! 2]]))
           else Inr (sub_cloudy_m[ic := map2 (+) (sub_clear r ! ic) (mean_diff r)])))"

fun fill_pixels ::
  "region \<Rightarrow> nat list \<Rightarrow> int \<Rightarrow> int \<Rightarrow> int \<Rightarrow> image \<Rightarrow> nat list \<Rightarrow> error + image" where
  "fill_pixels r dims min_pixel DN_min DN_max m [] = Inr m"
| "fill_pixels r dims min_pixel DN_min DN_max m (ic # ics) =
     (case fill_pixel r dims min_pixel DN_min DN_max m ic of
        Inl e \<Rightarrow> Inl e
      | Inr m' \<Rightarrow> fill_pixels r dims min_pixel DN_min DN_max m' ics)"

subsection \<open>Write-back and the loop over the regions: lines 46, 187-196\<close>

definition write_back :: "image \<Rightarrow> nat list \<Rightarrow> region \<Rightarrow> image \<Rightarrow> image" where
  \<comment> \<open>lines 188-194: the whole window block is stored back, band by band\<close>
  "write_back cloudy dims r m =
     fold (\<lambda>e img. img[cell_of dims (up_row r) (left_col r) (nat (num_sub_rows r)) e := m ! e])
       [0..<length m] cloudy"

definition fill_region ::
  "image \<Rightarrow> int list \<Rightarrow> nat list \<Rightarrow> int \<Rightarrow> int \<Rightarrow> int \<Rightarrow> int \<Rightarrow> int \<Rightarrow> image \<Rightarrow> int
     \<Rightarrow> error + image" where
  \<comment> \<open>the body of the loop of line 46, on the current content of \<open>cloudy\<close>\<close>
  "fill_region clear cloud_mask dims num_class min_pixel cloud_nbh DN_min DN_max cloudy cloud_code =
     (case extract_region cloudy clear cloud_mask dims num_class cloud_nbh cloud_code of
        Inl e \<Rightarrow> Inl e
      | Inr r \<Rightarrow>
          (case fill_pixels r dims min_pixel DN_min DN_max (sub_cloudy r)
                  [0..<length (sub_cloud_vec_i r)] of
             Inl e \<Rightarrow> Inl e
           | Inr m \<Rightarrow> Inr (write_back cloudy dims r m)))"

fun fill_regions ::
  "image \<Rightarrow> int list \<Rightarrow> nat list \<Rightarrow> int \<Rightarrow> int \<Rightarrow> int \<Rightarrow> int \<Rightarrow> int \<Rightarrow> image \<Rightarrow> int list
     \<Rightarrow> error + image" where
  "fill_regions clear cloud_mask dims num_class min_pixel cloud_nbh DN_min DN_max cloudy [] =
     Inr cloudy"
| "fill_regions clear cloud_mask dims num_class min_pixel cloud_nbh DN_min DN_max cloudy (c # cs) =
     (case fill_region clear cloud_mask dims num_class min_pixel cloud_nbh DN_min DN_max cloudy c of
        Inl e \<Rightarrow> Inl e
      | Inr cloudy' \<Rightarrow>
          fill_regions clear cloud_mask dims num_class min_pixel cloud_nbh DN_min DN_max cloudy' cs)"

definition cloud_codes_of :: "int list \<Rightarrow> int list" where
  \<comment> \<open>lines 42-44\<close>
  "cloud_codes_of cloud_mask = filter (\<lambda>c. c \<ge> 1) (unique cloud_mask)"

definition cloud_fill ::
  "image \<Rightarrow> image \<Rightarrow> int list \<Rightarrow> nat list \<Rightarrow> int \<Rightarrow> int \<Rightarrow> int \<Rightarrow> int \<Rightarrow> int \<Rightarrow> error + image" where
  "cloud_fill cloudy clear cloud_mask dims num_class min_pixel cloud_nbh DN_min DN_max =
     fill_regions clear cloud_mask dims num_class min_pixel cloud_nbh DN_min DN_max cloudy
       (cloud_codes_of cloud_mask)"

section \<open>Properties\<close>

subsection \<open>Auxiliary facts\<close>

lemmas fill_defs = cloud_fill_def cloud_codes_of_def unique_def fill_region_def extract_region_def
  window_bounds_def cell_of_def find_eq_def vmin_def vmax_def tube_def rows_at_def band_col_def stddev_def mean_def
  mean_diff_of_def fill_pixel_def find_similar_def clear_dists_of_def sort_index_def
  span_from_1_def similar_loop.simps indicate_similar_def num_similar_def write_back_def
  r2_of_def weight_def C_D_def normalise_def W_T1_def W_T2_def predict_1_def predict_2_def
  Let_def upt_conv_Cons

lemma cloud_codes_of_empty:
  assumes "\<forall>m \<in> set cloud_mask. m < 1"
  shows "cloud_codes_of cloud_mask = []"
  using assms by (auto simp: cloud_codes_of_def unique_def filter_empty_conv)

lemma vmin_le:
  assumes "x \<in> set xs"
  shows "vmin xs \<le> x"
proof -
  from assms obtain a as where xs: "xs = a # as"
    by (cases xs) auto
  have "vmin xs = Min (set xs)"
    unfolding xs vmin_def by (simp only: Min.set_eq_fold list.sel)
  with assms show ?thesis
    by simp
qed

lemma le_vmax:
  assumes "x \<in> set xs"
  shows "x \<le> vmax xs"
proof -
  from assms obtain a as where xs: "xs = a # as"
    by (cases xs) auto
  have "vmax xs = Max (set xs)"
    unfolding xs vmax_def by (simp only: Max.set_eq_fold list.sel)
  with assms show ?thesis
    by simp
qed

lemma normalise_ge_1:
  assumes "y \<in> set (normalise xs)"
  shows "1 \<le> y"
proof -
  from assms obtain x where x: "x \<in> set xs"
    and y: "y = (x - vmin xs) / (vmax xs - vmin xs + 0.000001) + 1.0"
    by (auto simp: normalise_def)
  have "vmin xs \<le> x" "x \<le> vmax xs"
    using x by (rule vmin_le, rule le_vmax)
  then have "0 \<le> (x - vmin xs) / (vmax xs - vmin xs + 0.000001)"
    by (intro divide_nonneg_pos) auto
  with y show ?thesis
    by simp
qed

lemma C_D_pos:
  assumes "c \<in> set (C_D rs ds)"
  shows "0 < c"
proof -
  from assms obtain a b where ab: "(a, b) \<in> set (zip (normalise rs) (normalise ds))"
    and c: "c = a * b + 0.0000001"
    by (auto simp: C_D_def)
  have "1 \<le> a" "1 \<le> b"
    using ab by (auto dest: set_zip_leftD set_zip_rightD intro: normalise_ge_1)
  then have "0 \<le> a * b"
    by simp
  with c show ?thesis
    by simp
qed

lemma length_C_D: "length (C_D rs ds) = min (length rs) (length ds)"
  by (simp add: C_D_def normalise_def)

lemma sum_list_pos_real:
  fixes xs :: "real list"
  assumes "\<forall>x \<in> set xs. 0 < x" and "xs \<noteq> []"
  shows "0 < sum_list xs"
  using assms
proof (induction xs)
  case Nil
  then show ?case by simp
next
  case (Cons x xs)
  then have "0 \<le> sum_list xs"
    by (intro sum_list_nonneg) (auto intro: less_imp_le)
  with Cons.prems show ?case
    by simp
qed

lemma weight_pos_sum:
  assumes "rs \<noteq> []" and "length ds = length rs"
  shows "(\<forall>w \<in> set (weight rs ds). 0 < w) \<and> sum_list (weight rs ds) = 1"
proof -
  let ?inv = "map (\<lambda>c. 1.0 / c) (C_D rs ds)"
  have inv_pos: "\<forall>v \<in> set ?inv. 0 < v"
    by (auto dest: C_D_pos)
  have "?inv \<noteq> []"
    using assms length_C_D [of rs ds] by auto
  with inv_pos have S: "0 < sum_list ?inv"
    by (rule sum_list_pos_real)
  have w: "weight rs ds = map (\<lambda>v. v / sum_list ?inv) ?inv"
    by (simp add: weight_def Let_def)
  have "\<forall>w \<in> set (weight rs ds). 0 < w"
    unfolding w using inv_pos S by auto
  moreover have "sum_list (map (\<lambda>v. v / sum_list ?inv) ?inv) = sum_list ?inv / sum_list ?inv"
    by (simp add: divide_inverse sum_list_mult_const del: map_map)
  then have "sum_list (weight rs ds) = 1"
    using S by (simp only: w) simp
  ultimately show ?thesis
    by blast
qed

lemma vmin_Min:
  assumes "xs \<noteq> []"
  shows "vmin xs = Min (set xs)"
proof -
  from assms obtain a as where xs: "xs = a # as"
    by (cases xs) auto
  show ?thesis
    unfolding xs vmin_def by (simp only: Min.set_eq_fold list.sel)
qed

lemma vmax_Max:
  assumes "xs \<noteq> []"
  shows "vmax xs = Max (set xs)"
proof -
  from assms obtain a as where xs: "xs = a # as"
    by (cases xs) auto
  show ?thesis
    unfolding xs vmax_def by (simp only: Max.set_eq_fold list.sel)
qed

lemma normalise_nth:
  assumes "i < length xs"
  shows "normalise xs ! i
           = (xs ! i - Min (set xs)) / (Max (set xs) - Min (set xs) + 0.000001) + 1"
    and "1 \<le> normalise xs ! i" and "normalise xs ! i < 2"
proof -
  from assms have ne: "xs \<noteq> []"
    by auto
  show eq: "normalise xs ! i
              = (xs ! i - Min (set xs)) / (Max (set xs) - Min (set xs) + 0.000001) + 1"
    using assms by (simp add: normalise_def vmin_Min [OF ne] vmax_Max [OF ne])
  have mem: "xs ! i \<in> set xs"
    using assms by simp
  then have lo: "Min (set xs) \<le> xs ! i" and hi: "xs ! i \<le> Max (set xs)"
    by simp_all
  let ?den = "Max (set xs) - Min (set xs) + 0.000001"
  have den: "0 < ?den"
    using lo hi by simp
  have "0 \<le> (xs ! i - Min (set xs)) / ?den"
    using lo den by (intro divide_nonneg_pos) simp_all
  then show "1 \<le> normalise xs ! i"
    by (simp add: eq)
  have "xs ! i - Min (set xs) < ?den"
    using hi by simp
  then have "(xs ! i - Min (set xs)) / ?den < 1"
    using den by simp
  then show "normalise xs ! i < 2"
    by (simp add: eq)
qed

lemma C_D_nth:
  assumes "i < length rs" and "length ds = length rs"
  shows "C_D rs ds ! i = normalise rs ! i * normalise ds ! i + 0.0000001"
  using assms by (simp add: C_D_def normalise_def)

lemma weight_nth:
  assumes "i < length rs" and "length ds = length rs"
  shows "weight rs ds ! i = (1 / C_D rs ds ! i) / (\<Sum>c\<leftarrow>C_D rs ds. 1 / c)"
  using assms by (simp add: weight_def Let_def length_C_D)

lemma length_weight: "length (weight rs ds) = min (length rs) (length ds)"
  by (simp add: weight_def Let_def length_C_D)

lemma similar_loop_lengths4:
  assumes "case s of (cs, ls, rs, ds) \<Rightarrow>
             length cs = length rs \<and> length ls = length rs \<and> length ds = length rs"
  shows "case similar_loop r dims min_pixel ic clear_dists order_clear iclear s of
           (cs, ls, rs, ds) \<Rightarrow>
             length cs = length rs \<and> length ls = length rs \<and> length ds = length rs"
  using assms
proof (induction r dims min_pixel ic clear_dists order_clear iclear s rule: similar_loop.induct)
  case (1 r dims min_pixel ic clear_dists order_clear iclear s)
  show ?case
    by (subst similar_loop.simps) (use 1 in \<open>auto split: prod.splits\<close>)
qed

subsection \<open>Evaluation on larger inputs\<close>

lemma upt_numeral_snoc: "[0..<numeral n] = [0..<pred_numeral n] @ [pred_numeral n]"
  by (simp add: numeral_eq_Suc)

lemmas fill_defs_numeral = cloud_fill_def cloud_codes_of_def unique_def fill_region_def
  extract_region_def window_bounds_def cell_of_def find_eq_def vmin_def vmax_def tube_def
  rows_at_def band_col_def stddev_def mean_def mean_diff_of_def fill_pixel_def find_similar_def
  clear_dists_of_def sort_index_def span_from_1_def similar_loop.simps indicate_similar_def
  num_similar_def write_back_def r2_of_def Let_def upt_numeral_snoc

lemma sqrt_le_numeral: "sqrt x \<le> numeral n \<longleftrightarrow> x \<le> (numeral n)\<^sup>2"
proof -
  have "sqrt x \<le> numeral n \<longleftrightarrow> sqrt x \<le> sqrt ((numeral n)\<^sup>2)"
    by (simp only: real_sqrt_abs abs_numeral)
  also have "\<dots> \<longleftrightarrow> x \<le> (numeral n)\<^sup>2"
    by (rule real_sqrt_le_iff)
  finally show ?thesis .
qed

lemma numeral_le_sqrt: "numeral n \<le> sqrt x \<longleftrightarrow> (numeral n)\<^sup>2 \<le> x"
proof -
  have "numeral n \<le> sqrt x \<longleftrightarrow> sqrt ((numeral n)\<^sup>2) \<le> sqrt x"
    by (simp only: real_sqrt_abs abs_numeral)
  also have "\<dots> \<longleftrightarrow> (numeral n)\<^sup>2 \<le> x"
    by (rule real_sqrt_le_iff)
  finally show ?thesis .
qed

lemma weight_two: "\<exists>w1 w2. weight [a, b] [c, d] = [w1, w2]"
  by (simp add: weight_def C_D_def normalise_def Let_def)

lemma predict_1_two: "predict_1 [[v], [v]] (weight [a, b] [c, d]) 0 = v"
proof -
  obtain w1 w2 where w: "weight [a, b] [c, d] = [w1, w2]"
    using weight_two by blast
  have "sum_list (weight [a, b] [c, d]) = 1"
    using weight_pos_sum [of "[a, b]" "[c, d]"] by simp
  then have "w1 + w2 = 1"
    by (simp add: w)
  then have "v * w1 + v * w2 = v"
    by (simp add: distrib_left [symmetric])
  then show ?thesis
    by (simp add: predict_1_def w)
qed

lemma predict_2_two: "predict_2 [[x], [y]] [[x], [y]] (weight [a, b] [c, d]) t 0 = t ! 0"
proof -
  obtain w1 w2 where "weight [a, b] [c, d] = [w1, w2]"
    using weight_two by blast
  then show ?thesis
    by (simp add: predict_2_def)
qed

lemma W_T_blend:
  assumes "0 \<le> r" and "\<forall>d \<in> set ds. 0 < d" and "ds \<noteq> []"
  shows "W_T1 r ds * v + W_T2 r ds * v = v"
proof -
  have "0 < sum_list ds"
    using assms(2,3) by (rule sum_list_pos_real)
  then have "0 < mean ds"
    using assms(3) by (simp add: mean_def)
  with assms(1) have "r + mean ds \<noteq> 0"
    by simp
  then show ?thesis
    by (simp add: W_T1_def W_T2_def distrib_right [symmetric] add_divide_distrib [symmetric])
qed

subsection \<open>Cells outside the regions\<close>

text \<open>
  C1 (non-interference) does not hold of the code.  The loop of line 109 counts the pixels
  of the region with \<open>ic\<close>, and lines 175, 177 and 184 store the value reconstructed for
  the \<open>ic\<close>-th pixel of the region in row \<open>ic\<close> of \<open>sub_cloudy\<close>, which is the \<open>ic\<close>-th cell
  of the window, not in row \<open>sub_cloud_vec_i(ic)\<close>.  On a one-row image with four
  columns, mask \<open>[0, 0, 1, 0]\<close> and a neighbourhood of one pixel, the window of region 1
  is the columns 1 to 3; the value computed for the cloud pixel (column 2) is written to
  column 1, whose mask value is 0: it changes from 20 to \<open>12 + 17 = 29\<close>.
\<close>

theorem clear_cell_overwritten:
  "cloud_fill [[10], [20], [99], [40]] [[11], [12], [13], [14]] [0, 0, 1, 0] [1, 4, 1] 1 2 1 0 255
     = Inr [[10], [29], [99], [40]]"
  by (simp add: fill_defs)

text \<open>
  C2 (every cell of a region holds its reconstructed value at its own row and column) does
  not hold of the code, for the same reason as C1.
  \<^item> On a 2 by 2 image whose cell (1, 1) is region 1, the window is the whole image and
    its cell 0 is the image cell (0, 0).  One candidate is visited and accepted, so the
    fallback applies with \<open>mean_diff = (18 + 11 + 1) / 3 = 10\<close>.  The region cell keeps its
    cloudy value 99 (the fallback of that cell is \<open>9 + 10 = 19\<close>), and the clear cell
    (0, 0) receives its own clear value plus \<open>mean_diff\<close>, 23.
  \<^item> On a 5 by 5 image with one band, a clear image of constant value 100 and a cloudy image
    equal to it except for the value 9999 at the cells (2, 2) and (2, 3) of region 1, with
    \<open>min_pixel = 2\<close>, \<open>cloud_nbh = 2\<close>, \<open>num_class = 1\<close> and the bounds 0 and 255, the two
    reconstructed values are 100 and are stored in the cells (0, 0) and (1, 0): the image
    is returned as it came, with 9999 in both cells of the region.
\<close>

theorem region_cell_not_reconstructed:
  "cloud_fill [[31], [20], [10], [99]] [[13], [9], [9], [9]] [0, 0, 0, 1] [2, 2, 1] 1 2 1 0 255
     = Inr [[23], [20], [10], [99]]
   \<and> cloud_fill
      [[100], [100], [100], [100], [100],
       [100], [100], [100], [100], [100],
       [100], [100], [9999], [100], [100],
       [100], [100], [9999], [100], [100],
       [100], [100], [100], [100], [100]]
      [[100], [100], [100], [100], [100],
       [100], [100], [100], [100], [100],
       [100], [100], [100], [100], [100],
       [100], [100], [100], [100], [100],
       [100], [100], [100], [100], [100]]
      [0, 0, 0, 0, 0,
       0, 0, 0, 0, 0,
       0, 0, 1, 0, 0,
       0, 0, 1, 0, 0,
       0, 0, 0, 0, 0]
      [5, 5, 1] 1 2 2 0 255
     = Inr
      [[100], [100], [100], [100], [100],
       [100], [100], [100], [100], [100],
       [100], [100], [9999], [100], [100],
       [100], [100], [9999], [100], [100],
       [100], [100], [100], [100], [100]]"
proof -
  have small:
    "cloud_fill [[31], [20], [10], [99]] [[13], [9], [9], [9]] [0, 0, 0, 1] [2, 2, 1] 1 2 1 0 255
       = Inr [[23], [20], [10], [99]]"
    by (simp add: fill_defs)
  have scenario: "cloud_fill
      [[100], [100], [100], [100], [100],
       [100], [100], [100], [100], [100],
       [100], [100], [9999], [100], [100],
       [100], [100], [9999], [100], [100],
       [100], [100], [100], [100], [100]]
      [[100], [100], [100], [100], [100],
       [100], [100], [100], [100], [100],
       [100], [100], [100], [100], [100],
       [100], [100], [100], [100], [100],
       [100], [100], [100], [100], [100]]
      [0, 0, 0, 0, 0,
       0, 0, 0, 0, 0,
       0, 0, 1, 0, 0,
       0, 0, 1, 0, 0,
       0, 0, 0, 0, 0]
      [5, 5, 1] 1 2 2 0 255
     = Inr
      [[100], [100], [100], [100], [100],
       [100], [100], [100], [100], [100],
       [100], [100], [9999], [100], [100],
       [100], [100], [9999], [100], [100],
       [100], [100], [100], [100], [100]]"
    by (simp add: fill_defs_numeral sqrt_le_numeral numeral_le_sqrt predict_1_two predict_2_two
          W_T_blend)
  from small scenario show ?thesis
    by (rule conjI)
qed

subsection \<open>The similar-pixel search\<close>

text \<open>
  C3 (exactly one candidate, the nearest, is discarded) does not hold of the code.  Line
  123 removes index 0 of the sorted candidates, and the walk of line 132 then starts at
  \<open>iclear = 1\<close> of the remaining vector, so the second-nearest candidate is never
  visited either.  On a one-row image with four columns whose column 0 is region 1
  (the target is the window's cell 0, so that row \<open>ic\<close> is the target's row), with a
  constant clear image and \<open>min_pixel = 2\<close>, the candidates are the columns 1, 2 and 3 at
  the distances 1, 2 and 3 and each of them passes the similarity test.  Only column 3 is
  accepted; with one similar pixel the fallback applies and column 0 receives
  \<open>50 + (-30) = 20\<close>, where a walk from the second-nearest candidate would accept the
  columns 2 and 3 and blend them.
\<close>

theorem search_skips_two_nearest:
  "case_sum Inl (find_similar [1, 4, 1] 2 0)
     (extract_region [[99], [10], [20], [30]] [[50], [50], [50], [50]] [1, 0, 0, 0]
        [1, 4, 1] 1 3 1)
     = Inr ([[30]], [[50]], [0], [3])
   \<and> cloud_fill [[99], [10], [20], [30]] [[50], [50], [50], [50]] [1, 0, 0, 0] [1, 4, 1] 1 2 3 0 255
     = Inr [[20], [10], [20], [30]]"
  by (simp add: fill_defs)

text \<open>
  C4 (a region whose window holds no clear candidate is filled by the fallback) does not
  hold of the code.  With no candidate, \<open>order_clear\<close> is empty, the upper bound
  \<open>order_clear.n_elem - 1\<close> of the span of line 123 wraps around, and the span is
  refused; with a single candidate the span \<open>(1, 0)\<close> is refused as well.  On a one-row
  image with three columns and mask \<open>[-1, 1, -1]\<close> the fill stops with the error.
\<close>

theorem no_candidates_fails:
  "cloud_fill [[10], [99], [30]] [[11], [12], [13]] [-1, 1, -1] [1, 3, 1] 1 2 1 0 255
     = Inl Logic_Error"
  by (simp add: fill_defs)

subsection \<open>Regions among each other\<close>

text \<open>
  C5 (each region writes only its own cells and reads unmodified data, so that the filled
  values on the cells of a region A are the same whether or not a disjoint region B is
  present, and the order of the regions does not matter) does not hold of the code, for the
  same reason as C1: a region stores its results in the first cells of its window, and
  these may be clear cells that another region reads as donors.  On a one-row image with
  six columns and a neighbourhood of two pixels, let A be the cell of column 0 and B the
  cell of column 4.  The window of A is the columns 0 to 2: it does not contain the cell
  of B, so that A has the donors 1 and 2 whether B is present, coded -1 or coded 0.  The
  window of B is the columns 2 to 5, and the fill of B stores its result in column 2
  (42 instead of 30).
  \<^item> With A coded 2 and B coded 1, B is filled first and the cell of A receives \<open>59 / 2\<close>.
  \<^item> With B absent, its cell coded -1 or coded 0, the cell of A receives \<open>47 / 2\<close>.
  \<^item> With A coded 1 and B coded 2 (the same regions in the other order), A is filled
    first and its cell receives \<open>47 / 2\<close>.
\<close>

theorem region_fill_depends_on_other_region:
  "cloud_fill [[90], [20], [30], [40], [95], [60]] [[11], [12], [13], [14], [15], [16]]
     [2, 0, 0, 0, 1, 0] [1, 6, 1] 1 2 2 0 255
     = Inr [[59 / 2], [20], [42], [40], [95], [60]]
   \<and> cloud_fill [[90], [20], [30], [40], [95], [60]] [[11], [12], [13], [14], [15], [16]]
     [2, 0, 0, 0, -1, 0] [1, 6, 1] 1 2 2 0 255
     = Inr [[47 / 2], [20], [30], [40], [95], [60]]
   \<and> cloud_fill [[90], [20], [30], [40], [95], [60]] [[11], [12], [13], [14], [15], [16]]
     [2, 0, 0, 0, 0, 0] [1, 6, 1] 1 2 2 0 255
     = Inr [[47 / 2], [20], [30], [40], [95], [60]]
   \<and> cloud_fill [[90], [20], [30], [40], [95], [60]] [[11], [12], [13], [14], [15], [16]]
     [1, 0, 0, 0, 2, 0] [1, 6, 1] 1 2 2 0 255
     = Inr [[47 / 2], [20], [42], [40], [95], [60]]"
  by (simp add: fill_defs)

subsection \<open>The temporal weights\<close>

text \<open>
  C6 (\<open>r2\<close> is the distance from the target to the centre of the window) does not hold
  of the code.  Line 70 takes \<open>x_center\<close> from the number of columns and line 71
  \<open>y_center\<close> from the number of rows, and line 115 subtracts the row \<open>ri\<close> of the target
  from \<open>x_center\<close> and its column \<open>ci\<close> from \<open>y_center\<close>.  On a one-row image with twelve
  columns whose column 3 is region 1, the window is the whole row, the target is at row 0
  and column 3, and the centre is at row \<open>1 / 2\<close> and column 6, at the distance
  \<open>sqrt (37 / 4)\<close>.  The code computes \<open>r2 = sqrt ((6 - 0)\<^sup>2 + (1 / 2 - 3)\<^sup>2) = 13 / 2\<close>.
  The two donors (columns 1 and 5) are at the distance 2, so the blend uses
  \<open>W_T1 = 13 / 17\<close> and \<open>W_T2 = 4 / 17\<close> on \<open>predict_1 = 30\<close> and \<open>predict_2 = 33\<close>; the
  value \<open>522 / 17\<close> is stored in the window's cell 0.
\<close>

theorem r2_axes_swapped:
  "case_sum Inl (find_similar [1, 12, 1] 2 0)
     (extract_region [[5], [20], [25], [99], [35], [40], [6], [7], [8], [9], [10], [11]]
        [[13], [10], [7], [13], [7], [10], [12], [8], [10], [10], [10], [10]]
        [-1, 0, 0, 1, 0, 0, -1, -1, -1, -1, -1, -1] [1, 12, 1] 1 8 1)
     = Inr ([[20], [40]], [[10], [10]], [3, 3], [2, 2])
   \<and> map_sum id (r2_of 0)
     (extract_region [[5], [20], [25], [99], [35], [40], [6], [7], [8], [9], [10], [11]]
        [[13], [10], [7], [13], [7], [10], [12], [8], [10], [10], [10], [10]]
        [-1, 0, 0, 1, 0, 0, -1, -1, -1, -1, -1, -1] [1, 12, 1] 1 8 1)
     = Inr (13 / 2)
   \<and> cloud_fill [[5], [20], [25], [99], [35], [40], [6], [7], [8], [9], [10], [11]]
     [[13], [10], [7], [13], [7], [10], [12], [8], [10], [10], [10], [10]]
     [-1, 0, 0, 1, 0, 0, -1, -1, -1, -1, -1, -1] [1, 12, 1] 1 2 8 0 255
     = Inr [[522 / 17], [20], [25], [99], [35], [40], [6], [7], [8], [9], [10], [11]]"
proof -
  have h: "sqrt (36 + (5 / 2)\<^sup>2) = 13 / 2"
    by (rule real_sqrt_unique) (simp_all add: power2_eq_square)
  show ?thesis
    by (simp add: fill_defs h)
qed

subsection \<open>The fallback\<close>

text \<open>
  C7 (an obscured pixel with at most one similar pixel receives its own clear spectrum
  plus \<open>mean_diff\<close>) does not hold of the code, for the same reason as C1: line 184 reads
  row \<open>ic\<close> of \<open>sub_clear\<close> and writes row \<open>ic\<close> of \<open>sub_cloudy\<close>.  On a one-row image with
  four columns and two bands whose column 1 is region 1, the window is the whole row,
  exactly one candidate (column 3) is visited and accepted, and
  \<open>mean_diff = [10, -15]\<close>.  The obscured pixel keeps \<open>[90, 90]\<close>, where its clear
  spectrum plus \<open>mean_diff\<close> is \<open>[19, 5]\<close>; the clear pixel of column 0 receives its own
  clear spectrum plus \<open>mean_diff\<close>, \<open>[23, 5]\<close>.
\<close>

theorem fallback_written_to_window_cell:
  "case_sum Inl (find_similar [1, 4, 2] 2 0)
     (extract_region [[31, 7], [90, 90], [20, 5], [10, 3]]
        [[13, 20], [9, 20], [9, 20], [9, 20]] [0, 1, 0, 0] [1, 4, 2] 1 2 1)
     = Inr ([[10, 3]], [[9, 20]], [sqrt 8], [2])
   \<and> cloud_fill [[31, 7], [90, 90], [20, 5], [10, 3]] [[13, 20], [9, 20], [9, 20], [9, 20]]
     [0, 1, 0, 0] [1, 4, 2] 1 2 2 0 255
     = Inr [[23, 5], [90, 90], [20, 5], [10, 3]]"
  by (simp add: fill_defs)

subsection \<open>The similarity test\<close>

text \<open>
  C8 (a candidate is similar when it exceeds the clear spectrum of the target by at most
  the threshold in every band, so that a candidate darker than the target always passes)
  does not hold of the code, for the same reason as C1: line 133 compares the candidate
  with row \<open>ic\<close> of \<open>sub_clear\<close>, the clear spectrum of the \<open>ic\<close>-th cell of the window.
  On a one-row image with five columns whose column 2 is region 1, with \<open>num_class = 4\<close>,
  the threshold is \<open>2 * 2 / 4 = 1\<close> and the clear value of the target is 12.  The
  candidates visited are the columns 0 and 4, with the clear values 8 and 10: both are
  darker than the target.  The code compares them with the clear value 8 of the window's
  cell 0 and rejects column 4 (\<open>10 - 8 > 1\<close>), so that one similar pixel is left and the
  fallback is taken.
\<close>

theorem similarity_against_window_cell:
  "map_sum id similar_th_band
     (extract_region [[30], [20], [99], [40], [60]] [[8], [12], [12], [8], [10]]
        [0, 0, 1, 0, 0] [1, 5, 1] 4 2 1)
     = Inr [1]
   \<and> case_sum Inl (find_similar [1, 5, 1] 2 0)
     (extract_region [[30], [20], [99], [40], [60]] [[8], [12], [12], [8], [10]]
        [0, 0, 1, 0, 0] [1, 5, 1] 4 2 1)
     = Inr ([[30]], [[8]], [0], [2])
   \<and> cloud_fill [[30], [20], [99], [40], [60]] [[8], [12], [12], [8], [10]]
     [0, 0, 1, 0, 0] [1, 5, 1] 4 2 2 0 255
     = Inr [[36], [20], [99], [40], [60]]"
  by (simp add: fill_defs)

subsection \<open>The donor weights\<close>

text \<open>
  C9. For every pixel that takes the path of more than one similar pixel, there is one
  weight for each of the \<open>num_similar\<close> donors, the weight of donor \<open>i\<close> is
  \<open>w_i = (1 / C_D_i) / sum_j (1 / C_D_j)\<close> with
  \<open>C_D_i = rmse_similar_norm_i * dis_similar_norm_i + 1e-7\<close>, where each of the two scores is
  scaled by its minimum and its maximum over the donors as in lines 156 and 157, every
  weight is strictly positive, and the weights sum to 1 in real arithmetic.  The proof does
  not depend on the order in which the donors were found.
\<close>

theorem donor_weights_normalised:
  assumes "case_sum Inl (find_similar dims min_pixel ic)
             (extract_region cloudy clear cloud_mask dims num_class cloud_nbh cloud_code)
             = Inr (cloudy_similar, clear_similar, rmse_similar, dis_similar)"
      and "1 < length rmse_similar"
  shows "length cloudy_similar = length rmse_similar
         \<and> length clear_similar = length rmse_similar
         \<and> length dis_similar = length rmse_similar
         \<and> length (weight rmse_similar dis_similar) = length rmse_similar
         \<and> (\<forall>i < length rmse_similar.
               normalise rmse_similar ! i
                 = (rmse_similar ! i - Min (set rmse_similar))
                     / (Max (set rmse_similar) - Min (set rmse_similar) + 0.000001) + 1
             \<and> normalise dis_similar ! i
                 = (dis_similar ! i - Min (set dis_similar))
                     / (Max (set dis_similar) - Min (set dis_similar) + 0.000001) + 1
             \<and> C_D rmse_similar dis_similar ! i
                 = normalise rmse_similar ! i * normalise dis_similar ! i + 0.0000001
             \<and> weight rmse_similar dis_similar ! i
                 = (1 / C_D rmse_similar dis_similar ! i)
                     / (\<Sum>c\<leftarrow>C_D rmse_similar dis_similar. 1 / c)
             \<and> 0 < weight rmse_similar dis_similar ! i)
         \<and> sum_list (weight rmse_similar dis_similar) = 1"
proof -
  from assms(1) obtain r order_clear where
    loop: "similar_loop r dims min_pixel ic (clear_dists_of ic r) order_clear 1 ([], [], [], [])
       = (cloudy_similar, clear_similar, rmse_similar, dis_similar)"
    by (auto simp: find_similar_def Let_def split: sum.splits if_splits)
  have len: "length cloudy_similar = length rmse_similar"
    "length clear_similar = length rmse_similar" "length dis_similar = length rmse_similar"
    using similar_loop_lengths4 [of "([], [], [], [])" r dims min_pixel ic "clear_dists_of ic r"
            order_clear 1] loop
    by simp_all
  from assms(2) have ne: "rmse_similar \<noteq> []"
    by auto
  note ws = weight_pos_sum [OF ne len(3)]
  have lw: "length (weight rmse_similar dis_similar) = length rmse_similar"
    by (simp add: length_weight len(3))
  have "0 < weight rmse_similar dis_similar ! i" if "i < length rmse_similar" for i
    using ws that lw by (simp add: nth_mem)
  then show ?thesis
    using len lw ws normalise_nth(1) [of _ rmse_similar] normalise_nth(1) [of _ dis_similar]
      C_D_nth [OF _ len(3)] weight_nth [OF _ len(3)]
    by simp
qed

theorem donor_weights_normalised_witness:
  "case_sum Inl (find_similar [1, 5, 1] 2 0)
     (extract_region [[30], [20], [99], [40], [60]] [[50], [50], [50], [50], [50]]
        [0, 0, 1, 0, 0] [1, 5, 1] 1 2 1)
     = Inr ([[30], [60]], [[50], [50]], [0, 0], [2, 2])
   \<and> 1 < length [0, 0 :: real]
   \<and> length (weight [0, 0] [2, 2]) = 2
   \<and> weight [0, 0] [2, 2] ! 0 = (1 / C_D [0, 0] [2, 2] ! 0) / (\<Sum>c\<leftarrow>C_D [0, 0] [2, 2]. 1 / c)
   \<and> weight [0, 0] [2, 2] ! 1 = (1 / C_D [0, 0] [2, 2] ! 1) / (\<Sum>c\<leftarrow>C_D [0, 0] [2, 2]. 1 / c)
   \<and> 0 < weight [0, 0] [2, 2] ! 0
   \<and> 0 < weight [0, 0] [2, 2] ! 1
   \<and> sum_list (weight [0, 0] [2, 2]) = 1"
proof -
  have search: "case_sum Inl (find_similar [1, 5, 1] 2 0)
     (extract_region [[30], [20], [99], [40], [60]] [[50], [50], [50], [50], [50]]
        [0, 0, 1, 0, 0] [1, 5, 1] 1 2 1)
     = Inr ([[30], [60]], [[50], [50]], [0, 0], [2, 2])"
    by (simp add: fill_defs)
  have more: "1 < length [0, 0 :: real]"
    by simp
  note t = donor_weights_normalised [OF search more]
  from t have len: "length (weight [0, 0] [2, 2]) = length [0, 0 :: real]"
    by blast
  from t have each: "\<forall>i < length [0, 0 :: real].
      weight [0, 0] [2, 2] ! i = (1 / C_D [0, 0] [2, 2] ! i) / (\<Sum>c\<leftarrow>C_D [0, 0] [2, 2]. 1 / c)
      \<and> 0 < weight [0, 0] [2, 2] ! i"
    by blast
  from t have total: "sum_list (weight [0, 0] [2, 2]) = 1"
    by blast
  have zero: "(0 :: nat) < length [0, 0 :: real]" and one: "(1 :: nat) < length [0, 0 :: real]"
    by simp_all
  from each zero have w0:
    "weight [0, 0] [2, 2] ! 0 = (1 / C_D [0, 0] [2, 2] ! 0) / (\<Sum>c\<leftarrow>C_D [0, 0] [2, 2]. 1 / c)
     \<and> 0 < weight [0, 0] [2, 2] ! 0"
    by blast
  from each one have w1:
    "weight [0, 0] [2, 2] ! 1 = (1 / C_D [0, 0] [2, 2] ! 1) / (\<Sum>c\<leftarrow>C_D [0, 0] [2, 2]. 1 / c)
     \<and> 0 < weight [0, 0] [2, 2] ! 1"
    by blast
  from len have len2: "length (weight [0, 0] [2, 2]) = 2"
    by simp
  from search more len2 w0 w1 total show ?thesis
    by blast
qed

subsection \<open>The empty mask\<close>

text \<open>
  C10. Idempotence on an empty mask: when no cell of the mask holds a positive value (every
  cell is 0 or -1, or any other value below 1), the returned image is the input cloudy image,
  in every cell and band.
\<close>

theorem cloud_fill_empty_mask:
  assumes "\<forall>m \<in> set cloud_mask. m \<le> 0"
  shows "cloud_fill cloudy clear cloud_mask dims num_class min_pixel cloud_nbh DN_min DN_max
           = Inr cloudy"
proof -
  have "\<forall>m \<in> set cloud_mask. m < 1"
    using assms by auto
  then have "cloud_codes_of cloud_mask = []"
    by (rule cloud_codes_of_empty)
  then show ?thesis
    by (simp add: cloud_fill_def)
qed

theorem cloud_fill_empty_mask_witness:
  "list_all (\<lambda>m. m \<le> 0) [0, -1, 0, -1 :: int]
   \<and> cloud_fill [[10], [20], [30], [40]] [[11], [12], [13], [14]] [0, -1, 0, -1] [2, 2, 1] 1 2 1 0 255
       = Inr [[10], [20], [30], [40]]"
proof -
  have mask: "\<forall>m \<in> set [0, -1, 0, -1 :: int]. m \<le> 0"
    by simp
  from cloud_fill_empty_mask [OF mask] mask show ?thesis
    by (simp add: list_all_iff)
qed

end
